theory Spec2Isabelle
  imports Complex_Main "HOL-Library.Multiset"
begin

section \<open>The trivia game component (src/components/TrivaGame.jsx)\<close>

text \<open>
  The component keeps eight pieces of React state (lines 6-15), starts \<open>fetchQuestions\<close>
  once when it mounts (lines 18-59), reacts to clicks on the answer buttons and on the
  restart button (lines 62-91) and renders one of five views (lines 93-178).
  The model below passes the state explicitly. Two things the code hands to the
  browser are kept inside the state as well: the callbacks given to \<open>setTimeout\<close>
  that have not run yet, and the list of outbound effects of the loader (HTTP requests
  and waits), so that statements about "no further request" and "no further timer"
  are statements about the state.
\<close>

subsection \<open>Data\<close>

text \<open>One element of \<open>response.data.results\<close>, with the three fields the component reads.\<close>

record trivia_question =
  question :: string
  correct_answer :: string
  incorrect_answers :: "string list"

text \<open>
  The closure passed to \<open>setTimeout\<close> in line 73. It reads \<open>currentQuestionIndex\<close>
  and \<open>questions.length\<close> of the render in which the click happened, so these two
  captured values are its fields, next to the delay in milliseconds.
\<close>

datatype timer = Advance (delay: nat) (captured_index: int) (captured_length: nat)

text \<open>What the loader does to the outside world, in order.\<close>

datatype effect = TokenRequest | QuestionsRequest string | Delay nat

record world =
  questions :: "trivia_question list"
  loading :: bool
  error :: "string option"
  currentQuestionIndex :: int
  selectedAnswer :: "string option"
  score :: int
  showResult :: bool
  gameOver :: bool
  timers :: "timer list"
  effects :: "effect list"

text \<open>The arguments of the \<open>useState\<close> calls, lines 6-15.\<close>

definition initial :: world where
  "initial = \<lparr> questions = [], loading = True, error = None, currentQuestionIndex = 0,
     selectedAnswer = None, score = 0, showResult = False, gameOver = False,
     timers = [], effects = [] \<rparr>"

subsection \<open>The loader: \<open>fetchQuestions\<close>, lines 19-56\<close>

text \<open>
  What a \<open>catch\<close> clause can receive: an error of the HTTP library, whose
  \<open>err.response?.status\<close> is the HTTP status when the server answered and undefined
  when it did not, or the \<open>Error\<close> object built in line 39, which has no
  \<open>response\<close> field at all.
\<close>

datatype thrown = AxiosError "nat option" | PlainError string

fun response_status :: "thrown \<Rightarrow> nat option" where
  "response_status (AxiosError st) = st"
| "response_status (PlainError msg) = None"

text \<open>The body of a reply of the question endpoint.\<close>

record api_response =
  response_code :: int
  results :: "trivia_question list"

text \<open>
  The remote service is a parameter: for the attempt with a given \<open>retryCount\<close> it
  answers the token request, and answers the question request made with a given token.
\<close>

type_synonym server = "nat \<Rightarrow> (thrown + string) \<times> (string \<Rightarrow> thrown + api_response)"

definition failure_message :: string where
  "failure_message = ''Failed to fetch questions. Please try refreshing the page in a few moments.''"

text \<open>
  The \<open>try\<close> block, lines 21-40: either it completes, or it throws; in both cases the
  state updates and requests made so far have happened.
\<close>

definition tryBlock :: "server \<Rightarrow> nat \<Rightarrow> world \<Rightarrow> thrown \<times> world + world" where
  "tryBlock srv retryCount s =
    (let s1 = s\<lparr>loading := True, error := None\<rparr>;
         s2 = s1\<lparr>effects := effects s1 @ [TokenRequest]\<rparr>
     in case fst (srv retryCount) of
          Inl err \<Rightarrow> Inl (err, s2)
        | Inr token \<Rightarrow>
            (let s3 = s2\<lparr>effects := effects s2 @ [QuestionsRequest token]\<rparr>
             in case snd (srv retryCount) token of
                  Inl err \<Rightarrow> Inl (err, s3)
                | Inr response \<Rightarrow>
                    if response_code response = 0
                    then Inr (s3\<lparr>questions := results response\<rparr>)
                    else Inl (PlainError ''Invalid response from server'', s3)))"

text \<open>
  The whole function with its \<open>catch\<close> (lines 41-52) and \<open>finally\<close> (line 54).
  On the retry path the code schedules \<open>fetchQuestions(retryCount + 1)\<close> after 2000 ms
  and returns; no view with an enabled control is rendered while that timer is pending
  (\<open>questions\<close> is still empty), so the model records the wait as an effect and
  continues with the next attempt. The \<open>console.log\<close> of line 44 is left out.
\<close>

function fetchQuestions :: "server \<Rightarrow> nat \<Rightarrow> world \<Rightarrow> world" where
  "fetchQuestions srv retryCount s =
    (case tryBlock srv retryCount s of
       Inr s' \<Rightarrow> s'\<lparr>loading := False\<rparr>
     | Inl (err, s') \<Rightarrow>
         if retryCount < 3 \<and> response_status err = Some 429
         then fetchQuestions srv (retryCount + 1)
                (s'\<lparr>effects := effects s' @ [Delay 2000], loading := False\<rparr>)
         else s'\<lparr>error := Some failure_message, loading := False\<rparr>)"
  by pat_completeness auto
termination
  by (relation "measure (\<lambda>(srv, retryCount, s). 3 - retryCount)") auto

declare fetchQuestions.simps [simp del]

subsection \<open>The quiz: \<open>handleAnswerSelect\<close>, its timer, \<open>handleRestartGame\<close>\<close>

text \<open>
  \<open>questions[i]\<close>: the element when \<open>i\<close> is an index of the array, undefined
  (here \<open>None\<close>) otherwise.
\<close>

definition element_at :: "'a list \<Rightarrow> int \<Rightarrow> 'a option" where
  "element_at xs i = (if 0 \<le> i \<and> i < int (length xs) then Some (xs ! nat i) else None)"

datatype js_error = TypeError

text \<open>
  An event handler either returns or throws; the state updates it requested before
  throwing are kept in both cases.
\<close>

datatype outcome = Returned world | Threw js_error world

fun state_of :: "outcome \<Rightarrow> world" where
  "state_of (Returned s) = s"
| "state_of (Threw e s) = s"

text \<open>
  Lines 62-82. The handler has no check of its own on the phase or on the index:
  reading \<open>correct_answer\<close> of an undefined \<open>currentQuestion\<close> in line 68 throws
  a TypeError, after lines 64-65 and before the timer of line 73 is set.
\<close>

definition handleAnswerSelect :: "string \<Rightarrow> world \<Rightarrow> outcome" where
  "handleAnswerSelect answer s =
    (let s1 = s\<lparr>selectedAnswer := Some answer, showResult := True\<rparr>
     in case element_at (questions s) (currentQuestionIndex s) of
          None \<Rightarrow> Threw TypeError s1
        | Some currentQuestion \<Rightarrow>
            (let s2 = (if answer = correct_answer currentQuestion
                       then s1\<lparr>score := score s + 1\<rparr> else s1)
             in Returned (s2\<lparr>timers := timers s2 @
                  [Advance 1500 (currentQuestionIndex s) (length (questions s))]\<rparr>)))"

text \<open>The callback of lines 73-81, run with the values it captured.\<close>

fun runTimer :: "timer \<Rightarrow> world \<Rightarrow> world" where
  "runTimer (Advance ms i len) s =
    (if i < int len - 1
     then s\<lparr>currentQuestionIndex := i + 1, selectedAnswer := None, showResult := False\<rparr>
     else s\<lparr>gameOver := True\<rparr>)"

text \<open>The oldest pending timer fires (all timers of the quiz have the same delay).\<close>

definition timerFires :: "world \<Rightarrow> world" where
  "timerFires s = (case timers s of [] \<Rightarrow> s | t # ts \<Rightarrow> runTimer t (s\<lparr>timers := ts\<rparr>))"

text \<open>Lines 85-91.\<close>

definition handleRestartGame :: "world \<Rightarrow> world" where
  "handleRestartGame s =
    s\<lparr>currentQuestionIndex := 0, score := 0, selectedAnswer := None,
      showResult := False, gameOver := False\<rparr>"

subsection \<open>The answer list of the render, lines 122-127\<close>

text \<open>
  \<open>Math.random\<close> is a parameter: \<open>rng k\<close> is the value of the \<open>k\<close>-th call, a number
  in the interval from 0 (inclusive) to 1 (exclusive), and the number of calls made so
  far is passed along. The comparison function of line 127 ignores its arguments and
  returns \<open>Math.random() - 0.5\<close>.
\<close>

type_synonym random_source = "nat \<Rightarrow> rat"

definition comparefn :: "random_source \<Rightarrow> nat \<Rightarrow> rat" where
  "comparefn rng k = rng k - 1 / 2"

text \<open>
  \<open>Array.prototype.sort\<close> belongs to the JavaScript engine, not to the repository. The
  model follows the sort of the V8 engine (Node.js, Chrome), a TimSort, which looks at
  the result of the comparison function only to test whether it is negative.

  For an array of fewer than 64 elements, and the question service delivers four
  answers, the minimal run length of that sort is the length of the array, so the sort
  has two steps and no merge. First \<open>CountAndMakeRun\<close>: the second element is compared
  with the first; a negative result starts a descending run, any other an ascending
  one. Each further element is compared with its predecessor and joins the run as
  long as the result says the same (negative in a descending run, not negative in an
  ascending one); the comparison that ends the run is made as well. A descending run is
  reversed. Then \<open>BinaryInsertionSort\<close>: each remaining element is the pivot of a binary
  search in the part already ordered, where a negative comparison of the pivot with
  the middle element continues to the left of it and any other result to the right,
  and is inserted where the search ends.

  Arrays of 64 or more elements are cut by the engine into several runs that are merged
  afterwards. That merge is not modelled: the model treats every array as one run, so
  for such arrays it can differ from the engine in the order and in the number of
  calls, never in the elements.
\<close>

fun continueRun :: "random_source \<Rightarrow> bool \<Rightarrow> nat \<Rightarrow> 'a list \<Rightarrow> 'a list \<times> 'a list \<times> nat" where
  "continueRun rng isDescending k [] = ([], [], k)"
| "continueRun rng isDescending k (x # xs) =
    (if (comparefn rng k < 0) = isDescending
     then (let (run, rest, k') = continueRun rng isDescending (k + 1) xs in (x # run, rest, k'))
     else ([], x # xs, k + 1))"

text \<open>The run at the start of the array, made ascending, the elements after it, and the calls.\<close>

fun countAndMakeRun :: "random_source \<Rightarrow> nat \<Rightarrow> 'a list \<Rightarrow> 'a list \<times> 'a list \<times> nat" where
  "countAndMakeRun rng k (x # y # zs) =
    (let isDescending = (comparefn rng k < 0);
         (run, rest, k') = continueRun rng isDescending (k + 1) zs
     in (if isDescending then rev (x # y # run) else x # y # run, rest, k'))"
| "countAndMakeRun rng k xs = (xs, [], k)"

text \<open>The search for the place of a pivot between the indices \<open>left\<close> and \<open>right\<close>.\<close>

function binarySearch :: "random_source \<Rightarrow> nat \<Rightarrow> nat \<Rightarrow> nat \<Rightarrow> nat \<times> nat" where
  "binarySearch rng k left right =
    (if left < right
     then (let mid = left + (right - left) div 2
           in if comparefn rng k < 0 then binarySearch rng (k + 1) left mid
              else binarySearch rng (k + 1) (mid + 1) right)
     else (left, k))"
  by pat_completeness auto
termination
  by (relation "measure (\<lambda>(rng, k, left, right). right - left)") auto

declare binarySearch.simps [simp del]

fun binaryInsertionSort :: "random_source \<Rightarrow> nat \<Rightarrow> 'a list \<Rightarrow> 'a list \<Rightarrow> 'a list \<times> nat" where
  "binaryInsertionSort rng k run [] = (run, k)"
| "binaryInsertionSort rng k run (pivot # rest) =
    (let (left, k') = binarySearch rng k 0 (length run)
     in binaryInsertionSort rng k' (take left run @ pivot # drop left run) rest)"

text \<open>An array of fewer than two elements is returned as it is, without a comparison.\<close>

definition array_sort :: "random_source \<Rightarrow> nat \<Rightarrow> 'a list \<Rightarrow> 'a list \<times> nat" where
  "array_sort rng k xs =
    (if length xs < 2 then (xs, k)
     else (let (run, rest, k') = countAndMakeRun rng k xs
           in binaryInsertionSort rng k' run rest))"

text \<open>Lines 124-127: a fresh array of the incorrect answers followed by the correct one, sorted.\<close>

definition allAnswers :: "random_source \<Rightarrow> nat \<Rightarrow> trivia_question \<Rightarrow> string list \<times> nat" where
  "allAnswers rng k currentQuestion =
     array_sort rng k (incorrect_answers currentQuestion @ [correct_answer currentQuestion])"

subsection \<open>Rendering, lines 93-178\<close>

text \<open>\<open>if (error)\<close>: null and the empty string are falsy.\<close>

fun truthy :: "string option \<Rightarrow> bool" where
  "truthy None = False"
| "truthy (Some msg) = (msg \<noteq> [])"

record answer_button =
  label :: string
  disabled :: bool
  backgroundColor :: string

record game_view =
  shown_score :: int
  shown_total :: nat
  shown_number :: int
  shown_question :: string
  buttons :: "answer_button list"
  feedback :: "string option"

datatype view =
    LoadingView
  | ErrorView "string option"
  | GameOverView int nat
  | GameView game_view
  | NullView

definition answerButton :: "world \<Rightarrow> trivia_question \<Rightarrow> string \<Rightarrow> answer_button" where
  "answerButton s currentQuestion answer =
    \<lparr> label = answer,
      disabled = showResult s,
      backgroundColor =
        (if showResult s
         then (if answer = correct_answer currentQuestion then ''lightgreen''
               else if Some answer = selectedAnswer s then ''lightcoral''
               else ''black'')
         else ''black'') \<rparr>"

text \<open>
  One run of the component's body from line 93 on. The result is the view and the number
  of \<open>Math.random\<close> calls made so far; reading a field of an undefined
  \<open>currentQuestion\<close> in line 125 throws.
\<close>

definition render :: "random_source \<Rightarrow> nat \<Rightarrow> world \<Rightarrow> (js_error + view) \<times> nat" where
  "render rng k s =
    (if loading s then (Inr LoadingView, k)
     else if truthy (error s) then (Inr (ErrorView (error s)), k)
     else if gameOver s then (Inr (GameOverView (score s) (length (questions s))), k)
     else if length (questions s) > 0 then
       (case element_at (questions s) (currentQuestionIndex s) of
          None \<Rightarrow> (Inl TypeError, k)
        | Some currentQuestion \<Rightarrow>
            (let (answers, k') = allAnswers rng k currentQuestion
             in (Inr (GameView
                   \<lparr> shown_score = score s,
                     shown_total = length (questions s),
                     shown_number = currentQuestionIndex s + 1,
                     shown_question = question currentQuestion,
                     buttons = map (answerButton s currentQuestion) answers,
                     feedback =
                       (if showResult s
                        then Some (if selectedAnswer s = Some (correct_answer currentQuestion)
                                   then ''Correct!'' else ''Incorrect!'')
                        else None) \<rparr>), k')))
     else (Inr NullView, k))"

text \<open>The labels of the answer buttons in the order shown; empty when there are none.\<close>

fun shown_answers :: "(js_error + view) \<Rightarrow> string list" where
  "shown_answers (Inr (GameView v)) = map label (buttons v)"
| "shown_answers other = []"

subsection \<open>Phases and user events\<close>

text \<open>
  The component has no phase variable. The phase of a state is read off the order of the
  tests in the render (lines 94, 99, 108, 121) and \<open>showResult\<close>; \<open>Blank\<close> is the
  \<open>return null\<close> of line 178, the view of a session without questions.
\<close>

datatype phase = Loading | Failed | Active | Feedback | Finished | Blank

definition phase :: "world \<Rightarrow> phase" where
  "phase s =
    (if loading s then Loading
     else if truthy (error s) then Failed
     else if gameOver s then Finished
     else if length (questions s) > 0 then (if showResult s then Feedback else Active)
     else Blank)"

text \<open>
  A click on an answer button, lines 143-147. The buttons exist when the render reaches
  line 129, and a button with \<open>disabled\<close> set does not run its \<open>onClick\<close>.
\<close>

definition game_shown :: "world \<Rightarrow> bool" where
  "game_shown s \<longleftrightarrow>
     \<not> loading s \<and> \<not> truthy (error s) \<and> \<not> gameOver s \<and> length (questions s) > 0 \<and>
     element_at (questions s) (currentQuestionIndex s) \<noteq> None"

definition answerButtonClick :: "string \<Rightarrow> world \<Rightarrow> outcome" where
  "answerButtonClick answer s =
    (if game_shown s \<and> \<not> showResult s then handleAnswerSelect answer s else Returned s)"

text \<open>A click on "Play Again", line 115: the button is part of the game-over view only.\<close>

definition restartButtonClick :: "world \<Rightarrow> world" where
  "restartButtonClick s =
    (if \<not> loading s \<and> \<not> truthy (error s) \<and> gameOver s then handleRestartGame s else s)"

text \<open>
  The states of a session: the component mounts, the loader runs against some server,
  and from then on the user clicks and timers fire, in any order.
\<close>

inductive reachable :: "world \<Rightarrow> bool" where
  start: "reachable initial"
| mounted: "reachable (fetchQuestions srv 0 initial)"
| answer: "reachable s \<Longrightarrow> reachable (state_of (answerButtonClick a s))"
| timeout: "reachable s \<Longrightarrow> reachable (timerFires s)"
| restart: "reachable s \<Longrightarrow> reachable (restartButtonClick s)"

subsection \<open>The invariant of a session\<close>

text \<open>
  Without questions nothing has moved. With questions, the index is one of the batch, and
  the pending timers and the score follow the phase: while a question is open no timer
  is pending and only earlier questions have scored; while its result is shown exactly
  the timer of that click is pending; when the game is over none is.
\<close>

definition session_inv :: "world \<Rightarrow> bool" where
  "session_inv s \<longleftrightarrow>
    (if questions s = []
     then currentQuestionIndex s = 0 \<and> score s = 0 \<and> \<not> gameOver s \<and> \<not> showResult s \<and> timers s = []
     else \<not> loading s \<and> error s = None \<and>
          0 \<le> currentQuestionIndex s \<and> currentQuestionIndex s < int (length (questions s)) \<and>
          0 \<le> score s \<and>
          (if gameOver s then timers s = [] \<and> score s \<le> int (length (questions s))
           else if showResult s
             then timers s = [Advance 1500 (currentQuestionIndex s) (length (questions s))] \<and>
                  score s \<le> currentQuestionIndex s + 1
             else timers s = [] \<and> score s \<le> currentQuestionIndex s))"

subsection \<open>A sample session\<close>

text \<open>
  Concrete servers, questions and states on which the statements below are evaluated:
  a batch of two questions whose correct answers are "Paris" and "42", answered with
  "Paris" and then with "7".
\<close>

definition paris :: trivia_question where
  "paris = \<lparr> question = ''Capital of France?'', correct_answer = ''Paris'',
     incorrect_answers = [''Rome'', ''Oslo'', ''Bern''] \<rparr>"

definition forty_two :: trivia_question where
  "forty_two = \<lparr> question = ''Six times seven?'', correct_answer = ''42'',
     incorrect_answers = [''7'', ''13'', ''67''] \<rparr>"

definition demo_server :: server where
  "demo_server n =
     (Inr ''token'', \<lambda>token. Inr \<lparr> response_code = 0, results = [paris, forty_two] \<rparr>)"

definition always_429 :: server where
  "always_429 n = (Inr ''token'', \<lambda>token. Inl (AxiosError (Some 429)))"

definition refusing_server :: server where
  "refusing_server n = (Inr ''token'', \<lambda>token. Inr \<lparr> response_code = 1, results = [] \<rparr>)"

definition demo_rng :: random_source where
  "demo_rng k = (if k < 3 then 3 / 4 else 1 / 4)"

definition mixed_rng :: random_source where
  "mixed_rng k = (if k = 0 \<or> k = 3 \<or> k = 5 then 3 / 4 else 1 / 4)"

definition demo_session :: world where
  "demo_session = fetchQuestions demo_server 0 initial"

definition demo_feedback :: world where
  "demo_feedback = state_of (answerButtonClick ''Paris'' demo_session)"

definition demo_second :: world where
  "demo_second = timerFires demo_feedback"

definition demo_feedback2 :: world where
  "demo_feedback2 = state_of (answerButtonClick ''7'' demo_second)"

definition demo_finished :: world where
  "demo_finished = timerFires demo_feedback2"

section \<open>Properties\<close>

subsection \<open>Auxiliary facts\<close>

lemma failure_message_truthy: "truthy (Some failure_message)"
  by (simp add: failure_message_def)

text \<open>The sort only moves elements.\<close>

lemma mset_continueRun:
  "continueRun rng d k xs = (run, rest, k') \<Longrightarrow> mset run + mset rest = mset xs"
proof (induction xs arbitrary: k run rest k')
  case Nil
  then show ?case by simp
next
  case (Cons x xs)
  show ?case
  proof (cases "(comparefn rng k < 0) = d")
    case True
    obtain r1 r2 k1 where c: "continueRun rng d (k + 1) xs = (r1, r2, k1)"
      by (cases "continueRun rng d (k + 1) xs")
    from Cons.prems True c have "run = x # r1" and "rest = r2" by simp_all
    with Cons.IH[OF c] show ?thesis by simp
  next
    case False
    with Cons.prems show ?thesis by simp
  qed
qed

lemma mset_countAndMakeRun:
  "countAndMakeRun rng k xs = (run, rest, k') \<Longrightarrow> mset run + mset rest = mset xs"
proof (induction rng k xs rule: countAndMakeRun.induct)
  case (1 rng k x y zs)
  obtain r1 r2 k1 where c: "continueRun rng (comparefn rng k < 0) (k + 1) zs = (r1, r2, k1)"
    by (cases "continueRun rng (comparefn rng k < 0) (k + 1) zs")
  from mset_continueRun[OF c] have m: "mset r1 + mset r2 = mset zs" .
  from "1.prems" c have "mset run = mset (x # y # r1)" and "rest = r2"
    by (auto simp: Let_def split: if_splits)
  with m show ?case by simp
qed simp_all

lemma mset_binaryInsertionSort:
  "mset (fst (binaryInsertionSort rng k run rest)) = mset run + mset rest"
proof (induction rest arbitrary: k run)
  case Nil
  show ?case by simp
next
  case (Cons pivot rest)
  obtain left k' where b: "binarySearch rng k 0 (length run) = (left, k')"
    by (cases "binarySearch rng k 0 (length run)")
  have "mset (take left run @ pivot # drop left run) = add_mset pivot (mset run)"
    by (metis append_take_drop_id mset.simps(2) mset_append union_mset_add_mset_right)
  with Cons[of k' "take left run @ pivot # drop left run"] b show ?case by simp
qed

lemma mset_array_sort: "mset (fst (array_sort rng k xs)) = mset xs"
proof (cases "length xs < 2")
  case True
  then show ?thesis by (simp add: array_sort_def)
next
  case False
  obtain run rest k' where c: "countAndMakeRun rng k xs = (run, rest, k')"
    by (cases "countAndMakeRun rng k xs")
  from False c have "array_sort rng k xs = binaryInsertionSort rng k' run rest"
    by (simp add: array_sort_def)
  with mset_countAndMakeRun[OF c] show ?thesis
    by (simp add: mset_binaryInsertionSort)
qed

lemma mset_allAnswers:
  "mset (fst (allAnswers rng k q)) = add_mset (correct_answer q) (mset (incorrect_answers q))"
  by (simp add: allAnswers_def mset_array_sort)

text \<open>What the loader leaves alone.\<close>

lemma tryBlock_Inr:
  "tryBlock srv n s = Inr s' \<Longrightarrow>
     loading s' = True \<and> error s' = None \<and>
     currentQuestionIndex s' = currentQuestionIndex s \<and> selectedAnswer s' = selectedAnswer s \<and>
     score s' = score s \<and> showResult s' = showResult s \<and> gameOver s' = gameOver s \<and>
     timers s' = timers s"
  by (auto simp: tryBlock_def Let_def split: sum.splits if_splits)

lemma tryBlock_Inl:
  "tryBlock srv n s = Inl (err, s') \<Longrightarrow>
     questions s' = questions s \<and>
     currentQuestionIndex s' = currentQuestionIndex s \<and> selectedAnswer s' = selectedAnswer s \<and>
     score s' = score s \<and> showResult s' = showResult s \<and> gameOver s' = gameOver s \<and>
     timers s' = timers s"
  by (auto simp: tryBlock_def Let_def split: sum.splits if_splits)

lemma fetchQuestions_frame:
  "currentQuestionIndex (fetchQuestions srv n s) = currentQuestionIndex s \<and>
   selectedAnswer (fetchQuestions srv n s) = selectedAnswer s \<and>
   score (fetchQuestions srv n s) = score s \<and>
   showResult (fetchQuestions srv n s) = showResult s \<and>
   gameOver (fetchQuestions srv n s) = gameOver s \<and>
   timers (fetchQuestions srv n s) = timers s \<and>
   loading (fetchQuestions srv n s) = False \<and>
   (error (fetchQuestions srv n s) = None \<or> questions (fetchQuestions srv n s) = questions s)"
proof (induction srv n s rule: fetchQuestions.induct)
  case (1 srv n s)
  show ?case
  proof (cases "tryBlock srv n s")
    case (Inr s')
    then show ?thesis
      using tryBlock_Inr[OF Inr] by (simp add: fetchQuestions.simps[of srv n s])
  next
    case (Inl p)
    obtain err s' where p: "p = (err, s')" by (cases p)
    note fr = tryBlock_Inl[OF Inl[unfolded p]]
    show ?thesis
    proof (cases "n < 3 \<and> response_status err = Some 429")
      case True
      have eq: "fetchQuestions srv n s =
          fetchQuestions srv (n + 1) (s'\<lparr>effects := effects s' @ [Delay 2000], loading := False\<rparr>)"
        using Inl p True by (simp add: fetchQuestions.simps[of srv n s])
      from True have c: "n < 3 \<and> response_status err = Some 429" .
      show ?thesis
        using "1.IH"[OF Inl[unfolded p] refl c] fr unfolding eq by simp
    next
      case False
      then show ?thesis
        using Inl p fr by (auto simp add: fetchQuestions.simps[of srv n s])
    qed
  qed
qed

text \<open>Every state of a session satisfies the invariant.\<close>

lemma inv_initial: "session_inv initial"
  by (simp add: session_inv_def initial_def)

lemma inv_mounted: "session_inv (fetchQuestions srv 0 initial)"
  using fetchQuestions_frame[of srv 0 initial]
  by (auto simp: session_inv_def initial_def)

lemma inv_answer: "session_inv s \<Longrightarrow> session_inv (state_of (answerButtonClick a s))"
  by (auto simp: session_inv_def answerButtonClick_def game_shown_def handleAnswerSelect_def
      element_at_def Let_def split: if_splits)

lemma inv_timeout: "session_inv s \<Longrightarrow> session_inv (timerFires s)"
  by (auto simp: session_inv_def timerFires_def split: if_splits list.splits)

lemma inv_restart: "session_inv s \<Longrightarrow> session_inv (restartButtonClick s)"
  by (auto simp: session_inv_def restartButtonClick_def handleRestartGame_def split: if_splits)

lemma reachable_inv: "reachable s \<Longrightarrow> session_inv s"
  by (induction rule: reachable.induct)
     (simp_all add: inv_initial inv_mounted inv_answer inv_timeout inv_restart)

lemma reachable_active_in_bounds:
  "reachable s \<Longrightarrow> phase s = Active \<Longrightarrow>
     element_at (questions s) (currentQuestionIndex s) =
       Some (questions s ! nat (currentQuestionIndex s)) \<and>
     game_shown s \<and> \<not> showResult s \<and> timers s = [] \<and>
     score s \<le> currentQuestionIndex s"
  using reachable_inv[of s]
  by (auto simp: session_inv_def phase_def game_shown_def element_at_def split: if_splits)

text \<open>The sample session, state by state.\<close>

lemma demo_session_eq:
  "demo_session = \<lparr> questions = [paris, forty_two], loading = False, error = None,
     currentQuestionIndex = 0, selectedAnswer = None, score = 0, showResult = False,
     gameOver = False, timers = [],
     effects = [TokenRequest, QuestionsRequest ''token''] \<rparr>"
  by (simp add: demo_session_def fetchQuestions.simps[of demo_server 0] tryBlock_def
      demo_server_def initial_def)

lemma demo_feedback_eq:
  "demo_feedback = \<lparr> questions = [paris, forty_two], loading = False, error = None,
     currentQuestionIndex = 0, selectedAnswer = Some ''Paris'', score = 1, showResult = True,
     gameOver = False, timers = [Advance 1500 0 2],
     effects = [TokenRequest, QuestionsRequest ''token''] \<rparr>"
  by (simp add: demo_feedback_def demo_session_eq answerButtonClick_def game_shown_def
      handleAnswerSelect_def element_at_def paris_def)

lemma demo_second_eq:
  "demo_second = \<lparr> questions = [paris, forty_two], loading = False, error = None,
     currentQuestionIndex = 1, selectedAnswer = None, score = 1, showResult = False,
     gameOver = False, timers = [],
     effects = [TokenRequest, QuestionsRequest ''token''] \<rparr>"
  by (simp add: demo_second_def demo_feedback_eq timerFires_def)

lemma demo_feedback2_eq:
  "demo_feedback2 = \<lparr> questions = [paris, forty_two], loading = False, error = None,
     currentQuestionIndex = 1, selectedAnswer = Some ''7'', score = 1, showResult = True,
     gameOver = False, timers = [Advance 1500 1 2],
     effects = [TokenRequest, QuestionsRequest ''token''] \<rparr>"
  by (simp add: demo_feedback2_def demo_second_eq answerButtonClick_def game_shown_def
      handleAnswerSelect_def element_at_def forty_two_def)

lemma demo_finished_eq:
  "demo_finished = \<lparr> questions = [paris, forty_two], loading = False, error = None,
     currentQuestionIndex = 1, selectedAnswer = Some ''7'', score = 1, showResult = True,
     gameOver = True, timers = [],
     effects = [TokenRequest, QuestionsRequest ''token''] \<rparr>"
  by (simp add: demo_finished_def demo_feedback2_eq timerFires_def)

lemma reachable_demo_session: "reachable demo_session"
  unfolding demo_session_def by (rule reachable.mounted)

lemma reachable_demo_feedback: "reachable demo_feedback"
  unfolding demo_feedback_def by (rule reachable.answer[OF reachable_demo_session])

lemma reachable_demo_second: "reachable demo_second"
  unfolding demo_second_def by (rule reachable.timeout[OF reachable_demo_feedback])

lemma reachable_demo_feedback2: "reachable demo_feedback2"
  unfolding demo_feedback2_def by (rule reachable.answer[OF reachable_demo_second])

lemma reachable_demo_finished: "reachable demo_finished"
  unfolding demo_finished_def by (rule reachable.timeout[OF reachable_demo_feedback2])

text \<open>What a game view shows.\<close>

lemma render_GameView:
  assumes "render rng k s = (Inr (GameView v), k')"
  obtains q where "element_at (questions s) (currentQuestionIndex s) = Some q"
    and "(map label (buttons v), k') = allAnswers rng k q"
    and "\<forall>b \<in> set (buttons v). disabled b = showResult s"
    and "game_shown s"
proof -
  from assms obtain q where q: "element_at (questions s) (currentQuestionIndex s) = Some q"
    and shown: "game_shown s"
    by (auto simp: render_def game_shown_def split: if_splits option.splits prod.splits)
  obtain as n where an: "allAnswers rng k q = (as, n)" by (cases "allAnswers rng k q")
  from assms q an shown have v: "buttons v = map (answerButton s q) as" and n: "k' = n"
    by (auto simp: render_def game_shown_def split: if_splits)
  have "map label (buttons v) = as"
    unfolding v by (induction as) (simp_all add: answerButton_def)
  moreover have "\<forall>b \<in> set (buttons v). disabled b = showResult s"
    unfolding v by (auto simp: answerButton_def)
  ultimately show thesis using that q an n shown by simp
qed

text \<open>What a returning \<open>handleAnswerSelect\<close> changes.\<close>

lemma handleAnswerSelect_Returned:
  assumes "element_at (questions s) (currentQuestionIndex s) = Some q"
  shows "\<exists>s1. handleAnswerSelect a s = Returned s1
     \<and> questions s1 = questions s \<and> currentQuestionIndex s1 = currentQuestionIndex s
     \<and> loading s1 = loading s \<and> error s1 = error s \<and> gameOver s1 = gameOver s
     \<and> showResult s1 \<and> selectedAnswer s1 = Some a
     \<and> timers s1 = timers s @ [Advance 1500 (currentQuestionIndex s) (length (questions s))]"
  using assms by (simp add: handleAnswerSelect_def Let_def)

text \<open>The two renders of the first question of the sample session.\<close>

lemma allAnswers_demo_first: "allAnswers demo_rng 0 paris = ([''Rome'', ''Oslo'', ''Bern'', ''Paris''], 3)"
  by (simp add: allAnswers_def array_sort_def demo_rng_def paris_def comparefn_def)

lemma allAnswers_demo_second: "allAnswers demo_rng 3 paris = ([''Paris'', ''Bern'', ''Oslo'', ''Rome''], 6)"
  by (simp add: allAnswers_def array_sort_def demo_rng_def paris_def comparefn_def)

lemma paris_fields:
  "question paris = ''Capital of France?''" "correct_answer paris = ''Paris''"
  by (simp_all add: paris_def)

lemma render_demo_session:
  "render demo_rng 0 demo_session =
      (Inr (GameView \<lparr> shown_score = 0, shown_total = 2, shown_number = 1,
          shown_question = ''Capital of France?'',
          buttons = map (answerButton demo_session paris) [''Rome'', ''Oslo'', ''Bern'', ''Paris''],
          feedback = None \<rparr>), 3)"
  by (simp add: render_def demo_session_eq element_at_def allAnswers_demo_first paris_fields)

lemma render_demo_feedback:
  "render demo_rng 3 demo_feedback =
      (Inr (GameView \<lparr> shown_score = 1, shown_total = 2, shown_number = 1,
          shown_question = ''Capital of France?'',
          buttons = map (answerButton demo_feedback paris) [''Paris'', ''Bern'', ''Oslo'', ''Rome''],
          feedback = Some ''Correct!'' \<rparr>), 6)"
  by (simp add: render_def demo_feedback_eq element_at_def allAnswers_demo_second paris_fields)

text \<open>
  The handler does not look at the phase: called on the Feedback state of the sample
  session it would score a second time and set a second timer. What keeps it from being
  called there is the \<open>disabled\<close> attribute of the buttons alone.
\<close>

lemma handleAnswerSelect_without_guard:
  "handleAnswerSelect ''Paris'' demo_feedback =
     Returned (demo_feedback\<lparr>score := 2, timers := [Advance 1500 0 2, Advance 1500 0 2]\<rparr>)"
  by (simp add: demo_feedback_eq handleAnswerSelect_def element_at_def paris_def)

subsection \<open>The loader\<close>

text \<open>
  C1. Against a service whose token requests succeed and whose question requests all fail
  with HTTP status 429, \<open>fetchQuestions\<close> started with \<open>retryCount = 0\<close> makes exactly four
  attempts, each a token request followed by a question request, waits 2000 ms before
  each of the three retries and after the fourth attempt stops: it sets the failure
  message, which puts the session in the Failed phase, and requests nothing more. The
  component has one failure outcome; it is the one a rate-limited load ends in.
\<close>

theorem fetchQuestions_rate_limited:
  assumes tok: "\<And>n. fst (srv n) = Inr (tok n)"
    and q429: "\<And>n token. snd (srv n) token = Inl (AxiosError (Some 429))"
  shows "fetchQuestions srv 0 s =
     s\<lparr>loading := False, error := Some failure_message,
       effects := effects s @
         [TokenRequest, QuestionsRequest (tok 0), Delay 2000,
          TokenRequest, QuestionsRequest (tok 1), Delay 2000,
          TokenRequest, QuestionsRequest (tok 2), Delay 2000,
          TokenRequest, QuestionsRequest (tok 3)]\<rparr>
     \<and> phase (fetchQuestions srv 0 s) = Failed"
proof -
  have eq: "fetchQuestions srv 0 s =
     s\<lparr>loading := False, error := Some failure_message,
       effects := effects s @
         [TokenRequest, QuestionsRequest (tok 0), Delay 2000,
          TokenRequest, QuestionsRequest (tok 1), Delay 2000,
          TokenRequest, QuestionsRequest (tok 2), Delay 2000,
          TokenRequest, QuestionsRequest (tok 3)]\<rparr>"
    by (simp add: fetchQuestions.simps tryBlock_def tok q429 numeral_2_eq_2 numeral_3_eq_3)
  show ?thesis
    unfolding eq by (simp add: phase_def failure_message_def)
qed

theorem fetchQuestions_rate_limited_witness:
  "fetchQuestions always_429 0 initial =
     initial\<lparr>loading := False, error := Some failure_message,
       effects :=
         [TokenRequest, QuestionsRequest ''token'', Delay 2000,
          TokenRequest, QuestionsRequest ''token'', Delay 2000,
          TokenRequest, QuestionsRequest ''token'', Delay 2000,
          TokenRequest, QuestionsRequest ''token'']\<rparr>
   \<and> phase (fetchQuestions always_429 0 initial) = Failed"
  using fetchQuestions_rate_limited[of always_429 "\<lambda>n. ''token''" initial]
  by (simp add: always_429_def initial_def phase_def failure_message_def)

text \<open>
  C5. When the question endpoint answers with a \<open>response_code\<close> other than 0, the call of
  \<open>fetchQuestions\<close> that received it, whatever its \<open>retryCount\<close>, ends at once in the
  failure outcome: beyond the token request and the question request of that attempt
  it adds no request and no wait, and it sets the failure message (phase Failed).
\<close>

theorem fetchQuestions_invalid_response:
  assumes "fst (srv retryCount) = Inr token"
    and "snd (srv retryCount) token = Inr response"
    and "response_code response \<noteq> 0"
  shows "fetchQuestions srv retryCount s =
     s\<lparr>loading := False, error := Some failure_message,
       effects := effects s @ [TokenRequest, QuestionsRequest token]\<rparr>
     \<and> phase (fetchQuestions srv retryCount s) = Failed"
proof -
  have eq: "fetchQuestions srv retryCount s =
     s\<lparr>loading := False, error := Some failure_message,
       effects := effects s @ [TokenRequest, QuestionsRequest token]\<rparr>"
    using assms by (simp add: fetchQuestions.simps[of srv retryCount] tryBlock_def)
  show ?thesis
    unfolding eq by (simp add: phase_def failure_message_def)
qed

theorem fetchQuestions_invalid_response_witness:
  "fetchQuestions refusing_server 0 initial =
     initial\<lparr>loading := False, error := Some failure_message,
       effects := [TokenRequest, QuestionsRequest ''token'']\<rparr>
   \<and> phase (fetchQuestions refusing_server 0 initial) = Failed"
  using fetchQuestions_invalid_response[of refusing_server 0 "''token''"
      "\<lparr> response_code = 1, results = [] \<rparr>" initial]
  by (simp add: refusing_server_def initial_def phase_def failure_message_def)

subsection \<open>The answer list\<close>

text \<open>
  C3. For every question, whatever the random source returns and however many incorrect
  answers there are, the answer list built in lines 124-127 is a permutation of the
  correct answer together with all incorrect answers: as a multiset it is exactly the
  correct answer added to the incorrect ones, so nothing is introduced, duplicated or
  lost; in particular its length is one more than the number of incorrect answers and
  its set of elements is the correct answer with the incorrect ones.
\<close>

theorem allAnswers_is_permutation:
  "mset (fst (allAnswers rng k q)) = add_mset (correct_answer q) (mset (incorrect_answers q))
   \<and> set (fst (allAnswers rng k q)) = insert (correct_answer q) (set (incorrect_answers q))
   \<and> length (fst (allAnswers rng k q)) = length (incorrect_answers q) + 1"
proof -
  have m: "mset (fst (allAnswers rng k q)) = mset (incorrect_answers q @ [correct_answer q])"
    by (simp add: mset_allAnswers)
  have "set (fst (allAnswers rng k q)) = set (incorrect_answers q @ [correct_answer q])"
    using m by (rule mset_eq_setD)
  moreover have "length (fst (allAnswers rng k q)) = length (incorrect_answers q @ [correct_answer q])"
    using m by (rule mset_eq_length)
  ultimately show ?thesis using m by simp
qed

theorem allAnswers_is_permutation_witness:
  "fst (allAnswers mixed_rng 0 paris) = [''Rome'', ''Paris'', ''Bern'', ''Oslo'']
   \<and> mset (fst (allAnswers mixed_rng 0 paris)) = {#''Paris'', ''Rome'', ''Oslo'', ''Bern''#}"
proof -
  have "allAnswers mixed_rng 0 paris = ([''Rome'', ''Paris'', ''Bern'', ''Oslo''], 6)"
    by (simp add: allAnswers_def array_sort_def mixed_rng_def paris_def comparefn_def
        binarySearch.simps)
  with allAnswers_is_permutation[of mixed_rng 0 paris] show ?thesis
    by (simp add: paris_def)
qed

text \<open>
  C4 as the specification states it: the answer order is derived once when a question is
  entered and every later display of that question, in particular the one of its
  Feedback phase, shows the same sequence. The component sorts in the body of the
  render, so each render draws a new order. In the sample session \<open>Math.random\<close> returns
  0.75 three times and 0.25 from then on. The render of the open first question makes
  three comparisons, none negative: the array is one ascending run and is shown as built,
  Rome, Oslo, Bern, Paris. The click on "Paris" changes the state, and the render that
  follows it, of the same question now in its Feedback phase, makes three comparisons
  again, all negative: the array is one descending run, which the sort reverses, and
  the buttons show Paris, Bern, Oslo, Rome.
\<close>

theorem answer_order_changes_in_feedback:
  "phase demo_session = Active
   \<and> shown_answers (fst (render demo_rng 0 demo_session)) = [''Rome'', ''Oslo'', ''Bern'', ''Paris'']
   \<and> snd (render demo_rng 0 demo_session) = 3
   \<and> answerButtonClick ''Paris'' demo_session = Returned demo_feedback
   \<and> phase demo_feedback = Feedback
   \<and> currentQuestionIndex demo_feedback = currentQuestionIndex demo_session
   \<and> shown_answers (fst (render demo_rng 3 demo_feedback)) = [''Paris'', ''Bern'', ''Oslo'', ''Rome'']
   \<and> shown_answers (fst (render demo_rng 3 demo_feedback))
       \<noteq> shown_answers (fst (render demo_rng 0 demo_session))"
proof -
  have click: "answerButtonClick ''Paris'' demo_session = Returned demo_feedback"
    by (simp add: demo_feedback_eq demo_session_eq answerButtonClick_def game_shown_def
        handleAnswerSelect_def element_at_def paris_def)
  have p1: "phase demo_session = Active" and p2: "phase demo_feedback = Feedback"
    by (simp_all add: phase_def demo_session_eq demo_feedback_eq)
  have ix: "currentQuestionIndex demo_feedback = currentQuestionIndex demo_session"
    by (simp add: demo_session_eq demo_feedback_eq)
  show ?thesis
    unfolding render_demo_session render_demo_feedback
    using click p1 p2 ix by (simp add: answerButton_def)
qed

text \<open>
  C4 as amended: every render of the game view derives the answer order anew, from the
  random source at the position that render has reached; nothing is retained between
  renders. What any two renders of the same question share, before or during its Feedback
  phase, is the multiset of answers shown: the two sequences are permutations of each
  other.
\<close>

theorem render_derives_answer_order_anew:
  assumes "render rng k s = (Inr (GameView v), k')"
    and "render rng' j s' = (Inr (GameView v'), j')"
    and "questions s' = questions s"
    and "currentQuestionIndex s' = currentQuestionIndex s"
  shows "\<exists>q. element_at (questions s) (currentQuestionIndex s) = Some q
           \<and> (map label (buttons v), k') = allAnswers rng k q
           \<and> (map label (buttons v'), j') = allAnswers rng' j q
           \<and> mset (map label (buttons v)) = mset (map label (buttons v'))"
proof -
  obtain q where q: "element_at (questions s) (currentQuestionIndex s) = Some q"
    and a: "(map label (buttons v), k') = allAnswers rng k q"
    using assms(1) by (rule render_GameView)
  obtain q' where q': "element_at (questions s') (currentQuestionIndex s') = Some q'"
    and a': "(map label (buttons v'), j') = allAnswers rng' j q'"
    using assms(2) by (rule render_GameView)
  from q q' assms(3,4) have same: "q' = q" by simp
  have "mset (map label (buttons v)) = mset (fst (allAnswers rng k q))"
    using a by (metis fst_conv)
  moreover have "mset (map label (buttons v')) = mset (fst (allAnswers rng' j q))"
    using a' same by (metis fst_conv)
  ultimately have "mset (map label (buttons v)) = mset (map label (buttons v'))"
    by (simp add: mset_allAnswers)
  with q a a' same show ?thesis by blast
qed

theorem render_derives_answer_order_anew_witness:
  "mset (shown_answers (fst (render demo_rng 0 demo_session)))
     = mset (shown_answers (fst (render demo_rng 3 demo_feedback)))
   \<and> shown_answers (fst (render demo_rng 0 demo_session)) = [''Rome'', ''Oslo'', ''Bern'', ''Paris'']
   \<and> shown_answers (fst (render demo_rng 3 demo_feedback)) = [''Paris'', ''Bern'', ''Oslo'', ''Rome'']"
proof -
  have q: "questions demo_feedback = questions demo_session"
    and i: "currentQuestionIndex demo_feedback = currentQuestionIndex demo_session"
    by (simp_all add: demo_session_eq demo_feedback_eq)
  from render_derives_answer_order_anew[OF render_demo_session render_demo_feedback q i]
  show ?thesis
    unfolding render_demo_session render_demo_feedback by (auto simp: answerButton_def)
qed

subsection \<open>The quiz\<close>

text \<open>
  C2. While the result of an answer is shown (phase Feedback: the timer of that answer has
  not fired yet), selecting an answer does nothing: the click on an answer button leaves
  the whole state as it is, so the score, the selected answer and the pending timers
  are unchanged and no further advance is scheduled. The guard is the \<open>disabled\<close>
  attribute of the buttons (line 147), which every button of a Feedback render carries;
  \<open>handleAnswerSelect\<close> itself has no guard and is not reached.
\<close>

theorem answer_click_in_feedback_is_noop:
  assumes "phase s = Feedback"
  shows "answerButtonClick a s = Returned s
     \<and> score (state_of (answerButtonClick a s)) = score s
     \<and> selectedAnswer (state_of (answerButtonClick a s)) = selectedAnswer s
     \<and> timers (state_of (answerButtonClick a s)) = timers s
     \<and> (\<forall>rng k v k'. render rng k s = (Inr (GameView v), k') \<longrightarrow>
           (\<forall>b \<in> set (buttons v). disabled b))"
proof -
  from assms have sr: "showResult s"
    by (simp add: phase_def split: if_splits)
  then have noop: "answerButtonClick a s = Returned s"
    by (simp add: answerButtonClick_def)
  have "\<forall>b \<in> set (buttons v). disabled b" if "render rng k s = (Inr (GameView v), k')"
    for rng k v k'
    using that sr by (elim render_GameView) simp
  then show ?thesis using noop by simp
qed

theorem answer_click_in_feedback_is_noop_witness:
  "phase demo_feedback = Feedback
   \<and> answerButtonClick ''Rome'' demo_feedback = Returned demo_feedback
   \<and> score (state_of (answerButtonClick ''Rome'' demo_feedback)) = 1
   \<and> selectedAnswer (state_of (answerButtonClick ''Rome'' demo_feedback)) = Some ''Paris''
   \<and> timers (state_of (answerButtonClick ''Rome'' demo_feedback)) = [Advance 1500 0 2]"
proof -
  have p: "phase demo_feedback = Feedback"
    by (simp add: phase_def demo_feedback_eq)
  from answer_click_in_feedback_is_noop[OF p, of "''Rome''"] p
  show ?thesis by (simp add: demo_feedback_eq)
qed

text \<open>
  C6. In every Active state of a session the current question exists, and for every
  state in which it exists and every answer string, \<open>handleAnswerSelect\<close> returns a
  state whose score is the old score plus one when the string equals the
  \<open>correct_answer\<close> of \<open>questions[currentQuestionIndex]\<close>, and the old score
  otherwise. The handler receives the string alone, not its position among the
  buttons, so the order of presentation has no part in it.
\<close>

theorem handleAnswerSelect_scores_exact_match:
  "(reachable s \<and> phase s = Active \<longrightarrow>
      element_at (questions s) (currentQuestionIndex s)
        = Some (questions s ! nat (currentQuestionIndex s))
      \<and> answerButtonClick a s = handleAnswerSelect a s)
   \<and> (element_at (questions s) (currentQuestionIndex s) = Some q \<longrightarrow>
        (\<exists>s'. handleAnswerSelect a s = Returned s'
           \<and> score s' = (if a = correct_answer q then score s + 1 else score s)
           \<and> (score s' = score s + 1 \<longleftrightarrow> a = correct_answer q)))"
proof -
  have act: "element_at (questions s) (currentQuestionIndex s)
        = Some (questions s ! nat (currentQuestionIndex s))
      \<and> answerButtonClick a s = handleAnswerSelect a s"
    if "reachable s \<and> phase s = Active"
    using that reachable_active_in_bounds[of s] by (simp add: answerButtonClick_def)
  have sc: "\<exists>s'. handleAnswerSelect a s = Returned s'
           \<and> score s' = (if a = correct_answer q then score s + 1 else score s)
           \<and> (score s' = score s + 1 \<longleftrightarrow> a = correct_answer q)"
    if "element_at (questions s) (currentQuestionIndex s) = Some q"
    using that by (simp add: handleAnswerSelect_def)
  from act sc show ?thesis by blast
qed

theorem handleAnswerSelect_scores_exact_match_witness:
  "reachable demo_session \<and> phase demo_session = Active
   \<and> element_at (questions demo_session) (currentQuestionIndex demo_session) = Some paris
   \<and> handleAnswerSelect ''Paris'' demo_session = Returned demo_feedback
   \<and> score demo_feedback = score demo_session + 1
   \<and> score (state_of (handleAnswerSelect ''paris'' demo_session)) = score demo_session"
proof -
  have p: "phase demo_session = Active"
    by (simp add: phase_def demo_session_eq)
  have e: "element_at (questions demo_session) (currentQuestionIndex demo_session) = Some paris"
    by (simp add: element_at_def demo_session_eq)
  have click: "handleAnswerSelect ''Paris'' demo_session = Returned demo_feedback"
    by (simp add: demo_feedback_eq demo_session_eq handleAnswerSelect_def element_at_def paris_def)
  have c: "''Paris'' = correct_answer paris" and w: "''paris'' \<noteq> correct_answer paris"
    by (simp_all add: paris_def)
  from handleAnswerSelect_scores_exact_match[of demo_session "''Paris''" paris] e click c
  have up: "score demo_feedback = score demo_session + 1" by simp
  from handleAnswerSelect_scores_exact_match[of demo_session "''paris''" paris] e w
  have same: "score (state_of (handleAnswerSelect ''paris'' demo_session)) = score demo_session"
    by auto
  from reachable_demo_session p e click up same show ?thesis by simp
qed

text \<open>
  C7. Selecting an answer in an Active state of a session leads to a Feedback state in
  which exactly one timer is pending, with a delay of 1500 ms. When that timer fires:
  if \<open>currentQuestionIndex < questions.length - 1\<close> the index goes up by one, the
  selected answer is cleared and the phase is Active again; otherwise, on the last
  question, the phase becomes Finished. In both cases no timer is left pending and the
  score and the questions are untouched.
\<close>

theorem advance_after_answer:
  assumes "reachable s" and "phase s = Active"
  shows "\<exists>s1. answerButtonClick a s = Returned s1
     \<and> phase s1 = Feedback
     \<and> timers s1 = [Advance 1500 (currentQuestionIndex s1) (length (questions s1))]
     \<and> (if currentQuestionIndex s1 < int (length (questions s1)) - 1
        then currentQuestionIndex (timerFires s1) = currentQuestionIndex s1 + 1
           \<and> selectedAnswer (timerFires s1) = None
           \<and> phase (timerFires s1) = Active
        else phase (timerFires s1) = Finished)
     \<and> timers (timerFires s1) = []
     \<and> score (timerFires s1) = score s1
     \<and> questions (timerFires s1) = questions s1"
proof -
  note b = reachable_active_in_bounds[OF assms]
  from assms(2) have fl: "\<not> loading s" "\<not> truthy (error s)" "\<not> gameOver s"
      "length (questions s) > 0"
    by (simp_all add: phase_def split: if_splits)
  from b obtain s1 where ret: "handleAnswerSelect a s = Returned s1"
    and fr: "questions s1 = questions s" "currentQuestionIndex s1 = currentQuestionIndex s"
      "loading s1 = loading s" "error s1 = error s" "gameOver s1 = gameOver s"
      "showResult s1" "selectedAnswer s1 = Some a"
      "timers s1 = timers s @ [Advance 1500 (currentQuestionIndex s) (length (questions s))]"
    using handleAnswerSelect_Returned[of s _ a] by blast
  from b ret have click: "answerButtonClick a s = Returned s1"
    by (simp add: answerButtonClick_def)
  have ph: "phase s1 = Feedback"
    using fl fr by (simp add: phase_def)
  have tm: "timers s1 = [Advance 1500 (currentQuestionIndex s1) (length (questions s1))]"
    using b fr by simp
  have fire: "timerFires s1 =
      runTimer (Advance 1500 (currentQuestionIndex s1) (length (questions s1))) (s1\<lparr>timers := []\<rparr>)"
    by (simp add: timerFires_def tm)
  have after: "(if currentQuestionIndex s1 < int (length (questions s1)) - 1
        then currentQuestionIndex (timerFires s1) = currentQuestionIndex s1 + 1
           \<and> selectedAnswer (timerFires s1) = None
           \<and> phase (timerFires s1) = Active
        else phase (timerFires s1) = Finished)
     \<and> timers (timerFires s1) = []
     \<and> score (timerFires s1) = score s1
     \<and> questions (timerFires s1) = questions s1"
    unfolding fire using fl fr by (simp add: phase_def)
  from click ph tm after show ?thesis by blast
qed

theorem advance_after_answer_witness:
  "answerButtonClick ''Paris'' demo_session = Returned demo_feedback
   \<and> timers demo_feedback = [Advance 1500 0 2]
   \<and> timerFires demo_feedback = demo_second
   \<and> currentQuestionIndex demo_second = 1
   \<and> selectedAnswer demo_second = None
   \<and> phase demo_second = Active"
proof -
  have p: "phase demo_session = Active"
    by (simp add: phase_def demo_session_eq)
  have click: "answerButtonClick ''Paris'' demo_session = Returned demo_feedback"
    by (simp add: demo_feedback_eq demo_session_eq answerButtonClick_def game_shown_def
        handleAnswerSelect_def element_at_def paris_def)
  from advance_after_answer[OF reachable_demo_session p, of "''Paris''"] click
  show ?thesis
    by (simp add: demo_second_def[symmetric]) (simp add: demo_feedback_eq demo_second_eq phase_def)
qed

text \<open>
  C8. \<open>handleRestartGame\<close> is idempotent: applied once or any number of times more it gives
  the same state, with index 0, score 0 and no selected answer. It leaves the questions,
  the pending timers and the list of requests as they were, so nothing is fetched
  again. Called from the Finished phase of a session, where the restart button is
  shown, the state it gives is Active.
\<close>

theorem handleRestartGame_idempotent:
  "(handleRestartGame ^^ Suc n) s = handleRestartGame s
   \<and> currentQuestionIndex (handleRestartGame s) = 0
   \<and> score (handleRestartGame s) = 0
   \<and> selectedAnswer (handleRestartGame s) = None
   \<and> questions (handleRestartGame s) = questions s
   \<and> effects (handleRestartGame s) = effects s
   \<and> timers (handleRestartGame s) = timers s
   \<and> (reachable s \<and> phase s = Finished \<longrightarrow>
        restartButtonClick s = handleRestartGame s
        \<and> phase (handleRestartGame s) = Active
        \<and> timers (handleRestartGame s) = [])"
proof -
  have idem: "handleRestartGame (handleRestartGame t) = handleRestartGame t" for t
    by (simp add: handleRestartGame_def)
  have iter: "(handleRestartGame ^^ Suc n) s = handleRestartGame s"
    by (induction n) (simp_all add: idem)
  have fin: "restartButtonClick s = handleRestartGame s
        \<and> phase (handleRestartGame s) = Active
        \<and> timers (handleRestartGame s) = []"
    if "reachable s \<and> phase s = Finished"
    using that reachable_inv[of s]
    by (auto simp: session_inv_def phase_def restartButtonClick_def handleRestartGame_def
        split: if_splits)
  show ?thesis
    using iter fin by (simp add: handleRestartGame_def)
qed

theorem handleRestartGame_idempotent_witness:
  "reachable demo_finished \<and> phase demo_finished = Finished
   \<and> (handleRestartGame ^^ 3) demo_finished = handleRestartGame demo_finished
   \<and> handleRestartGame demo_finished = demo_session"
proof -
  have p: "phase demo_finished = Finished"
    by (simp add: phase_def demo_finished_eq)
  have r: "handleRestartGame demo_finished = demo_session"
    by (simp add: handleRestartGame_def demo_finished_eq demo_session_eq)
  from handleRestartGame_idempotent[of 2 demo_finished] reachable_demo_finished p r
  show ?thesis by (simp add: numeral_3_eq_3)
qed

text \<open>
  C9. In every state of a session, whatever the server answered and whatever the user
  did, the score is at least 0 and at most the number of questions, and in the phases
  Active and Feedback the index is at least 0 and less than the number of questions.
  The Finished states are among them, so a full playthrough of a batch of N questions
  ends with a score from 0 to N.
\<close>

theorem session_score_and_index_bounds:
  assumes "reachable s"
  shows "0 \<le> score s \<and> score s \<le> int (length (questions s))
     \<and> (phase s = Active \<or> phase s = Feedback \<longrightarrow>
          0 \<le> currentQuestionIndex s \<and> currentQuestionIndex s < int (length (questions s)))"
  using reachable_inv[OF assms]
  by (auto simp: session_inv_def phase_def split: if_splits)

theorem session_score_and_index_bounds_witness:
  "reachable demo_finished \<and> phase demo_finished = Finished
   \<and> score demo_finished = 1 \<and> length (questions demo_finished) = 2
   \<and> 0 \<le> score demo_finished \<and> score demo_finished \<le> int (length (questions demo_finished))"
  using session_score_and_index_bounds[OF reachable_demo_finished] reachable_demo_finished
  by (simp add: demo_finished_eq phase_def)

text \<open>
  C10. \<open>handleAnswerSelect\<close> reads \<open>questions[currentQuestionIndex].correct_answer\<close>
  unguarded: it returns exactly when the index is one of the batch, that is at least 0
  and less than the number of questions. Otherwise, and so for every empty batch, the
  read throws a TypeError, after the selection has been stored and before any timer is
  set.
\<close>

theorem handleAnswerSelect_returns_iff_in_bounds:
  "((\<exists>s'. handleAnswerSelect a s = Returned s') \<longleftrightarrow>
      0 \<le> currentQuestionIndex s \<and> currentQuestionIndex s < int (length (questions s)))
   \<and> (\<not> (0 \<le> currentQuestionIndex s \<and> currentQuestionIndex s < int (length (questions s))) \<longrightarrow>
        handleAnswerSelect a s = Threw TypeError (s\<lparr>selectedAnswer := Some a, showResult := True\<rparr>))
   \<and> (questions s = [] \<longrightarrow>
        handleAnswerSelect a s = Threw TypeError (s\<lparr>selectedAnswer := Some a, showResult := True\<rparr>))"
  by (auto simp: handleAnswerSelect_def element_at_def Let_def)

theorem handleAnswerSelect_returns_iff_in_bounds_witness:
  "questions initial = []
   \<and> handleAnswerSelect ''Paris'' initial
       = Threw TypeError (initial\<lparr>selectedAnswer := Some ''Paris'', showResult := True\<rparr>)
   \<and> handleAnswerSelect ''Paris'' demo_session = Returned demo_feedback"
proof -
  have e: "questions initial = []"
    by (simp add: initial_def)
  have b: "0 \<le> currentQuestionIndex demo_session
      \<and> currentQuestionIndex demo_session < int (length (questions demo_session))"
    by (simp add: demo_session_eq)
  have click: "handleAnswerSelect ''Paris'' demo_session = Returned demo_feedback"
    by (simp add: demo_feedback_eq demo_session_eq handleAnswerSelect_def element_at_def paris_def)
  from handleAnswerSelect_returns_iff_in_bounds[of "''Paris''" initial]
    handleAnswerSelect_returns_iff_in_bounds[of "''Paris''" demo_session] e b click
  show ?thesis by simp
qed

end
